theory Spec2Isabelle
  imports Main
begin

section \<open>Text: \<open>str.lower\<close> and \<open>str.strip\<close>\<close>

text \<open>
  Python strings are sequences of code points. The model works on \<open>string\<close>, whose
  characters carry the code points below 256; on these, \<open>str.lower\<close> maps \<open>A..Z\<close> and the
  Latin-1 capitals (192..222 without the multiplication sign 215) 32 places up, and
  \<open>str.isspace\<close> holds of 9..13, 28..32, 133 and 160.
\<close>

definition lower_char :: "char \<Rightarrow> char" where
  "lower_char c =
     (let n = (of_char c :: nat)
      in if (65 \<le> n \<and> n \<le> 90) \<or> (192 \<le> n \<and> n \<le> 222 \<and> n \<noteq> 215)
         then char_of (n + 32) else c)"

definition lower :: "string \<Rightarrow> string" where
  "lower s = map lower_char s"

definition isspace :: "char \<Rightarrow> bool" where
  "isspace c =
     (let n = (of_char c :: nat)
      in (9 \<le> n \<and> n \<le> 13) \<or> (28 \<le> n \<and> n \<le> 32) \<or> n = 133 \<or> n = 160)"

definition strip :: "string \<Rightarrow> string" where
  "strip s = rev (dropWhile isspace (rev (dropWhile isspace s)))"


section \<open>The world of one invocation\<close>

text \<open>A row of the table \<open>notes (url TEXT PRIMARY KEY, content TEXT)\<close>.\<close>

record note_row =
  url :: string
  content :: string

text \<open>
  What is on disk under the home directory: no \<open>.scrappy\<close> directory; the directory
  without \<open>scrappy_notes.db\<close>; the database file without a table \<open>notes\<close>; the table
  with its rows, in insertion order.
\<close>

datatype store = NoDir | NoFile | NoTable | Notes "note_row list"

datatype conn_state = NotConnected | Open | Closed

datatype sql =
    CreateTable
  | SelectCount string
  | InsertOrReplace string string

text \<open>The calls that leave the process, in the order they are made.\<close>

datatype event =
    MakeDirs
  | Connect
  | Execute sql
  | Commit
  | Close
  | Input string
  | Download string
  | Print string

datatype exn =
    OSError
  | OperationalError
  | ProgrammingError
  | EOFError
  | ArticleException string

text \<open>
  \<open>txn\<close> holds the rows as the open transaction sees them, between an
  \<open>INSERT OR REPLACE\<close> and the \<open>commit\<close> that publishes them to the store.
  \<open>stdin\<close> is the lines still to be read, \<open>stdout\<close> the texts written so far.
\<close>

record world =
  store :: store
  conn :: conn_state
  txn :: "note_row list option"
  stdin :: "string list"
  stdout :: "string list"
  trace :: "event list"

text \<open>
  What the program cannot decide itself: whether the operating system lets it create the
  directory, and what the article library answers for a URL (\<open>Inl\<close> the failure it
  reports, \<open>Inr\<close> the article text).
\<close>

record env =
  can_mkdir :: bool
  article_text :: "string \<Rightarrow> string + string"

text \<open>A statement either returns a value or raises; the world goes on from where it stopped.\<close>

type_synonym 'a prog = "world \<Rightarrow> (exn + 'a) \<times> world"

definition andThen :: "'a prog \<Rightarrow> ('a \<Rightarrow> 'b prog) \<Rightarrow> 'b prog" where
  "andThen m f w = (case m w of (Inl e, w') \<Rightarrow> (Inl e, w') | (Inr x, w') \<Rightarrow> f x w')"

definition called :: "event \<Rightarrow> world \<Rightarrow> world" where
  "called e w = w\<lparr>trace := trace w @ [e]\<rparr>"

text \<open>The world a process starts in: nothing opened, nothing written.\<close>

definition boot :: "store \<Rightarrow> string list \<Rightarrow> world" where
  "boot st lines =
     \<lparr>store = st, conn = NotConnected, txn = None, stdin = lines, stdout = [], trace = []\<rparr>"


section \<open>The library calls\<close>

text \<open>\<open>os.makedirs(..., exist_ok=True)\<close>\<close>

definition makedirs :: "env \<Rightarrow> unit prog" where
  "makedirs en w =
     (let w1 = called MakeDirs w
      in case store w of
           NoDir \<Rightarrow> if can_mkdir en then (Inr (), w1\<lparr>store := NoFile\<rparr>) else (Inl OSError, w1)
         | _ \<Rightarrow> (Inr (), w1))"

text \<open>\<open>sqlite3.connect(db_path)\<close>: opens the file, creating an empty one when it is absent.\<close>

definition connect :: "unit prog" where
  "connect w =
     (let w1 = called Connect w
      in case store w of
           NoDir \<Rightarrow> (Inl OperationalError, w1)
         | NoFile \<Rightarrow> (Inr (), w1\<lparr>store := NoTable, conn := Open\<rparr>)
         | _ \<Rightarrow> (Inr (), w1\<lparr>conn := Open\<rparr>))"

text \<open>The rows a statement on the connection reads.\<close>

definition current_rows :: "world \<Rightarrow> note_row list option" where
  "current_rows w =
     (case txn w of
        Some rows \<Rightarrow> Some rows
      | None \<Rightarrow> (case store w of Notes rows \<Rightarrow> Some rows | _ \<Rightarrow> None))"

text \<open>\<open>CREATE TABLE IF NOT EXISTS notes (...)\<close>: data definition is published at once.\<close>

definition create_table :: "unit prog" where
  "create_table w =
     (let w1 = called (Execute CreateTable) w
      in if conn w \<noteq> Open then (Inl ProgrammingError, w1)
         else case current_rows w of
                Some rows \<Rightarrow> (Inr (), w1)
              | None \<Rightarrow> (case store w of
                           NoTable \<Rightarrow> (Inr (), w1\<lparr>store := Notes []\<rparr>)
                         | _ \<Rightarrow> (Inl OperationalError, w1)))"

text \<open>\<open>SELECT COUNT(*) FROM notes WHERE url = ?\<close> followed by \<open>fetchone()[0]\<close>\<close>

definition select_count :: "string \<Rightarrow> nat prog" where
  "select_count u w =
     (let w1 = called (Execute (SelectCount u)) w
      in if conn w \<noteq> Open then (Inl ProgrammingError, w1)
         else case current_rows w of
                None \<Rightarrow> (Inl OperationalError, w1)
              | Some rows \<Rightarrow> (Inr (length (filter (\<lambda>n. url n = u) rows)), w1))"

text \<open>
  \<open>INSERT OR REPLACE INTO notes (url, content) VALUES (?, ?)\<close>: the rows whose primary
  key collides are deleted, then the new row is inserted; the change stays in the
  transaction until \<open>commit\<close>.
\<close>

definition replace_row :: "string \<Rightarrow> string \<Rightarrow> note_row list \<Rightarrow> note_row list" where
  "replace_row u c rows = filter (\<lambda>n. url n \<noteq> u) rows @ [\<lparr>url = u, content = c\<rparr>]"

definition insert_or_replace :: "string \<Rightarrow> string \<Rightarrow> unit prog" where
  "insert_or_replace u c w =
     (let w1 = called (Execute (InsertOrReplace u c)) w
      in if conn w \<noteq> Open then (Inl ProgrammingError, w1)
         else case current_rows w of
                None \<Rightarrow> (Inl OperationalError, w1)
              | Some rows \<Rightarrow> (Inr (), w1\<lparr>txn := Some (replace_row u c rows)\<rparr>))"

text \<open>\<open>conn.commit()\<close>\<close>

definition commit :: "unit prog" where
  "commit w =
     (let w1 = called Commit w
      in if conn w \<noteq> Open then (Inl ProgrammingError, w1)
         else case txn w of
                None \<Rightarrow> (Inr (), w1)
              | Some rows \<Rightarrow> (Inr (), w1\<lparr>store := Notes rows, txn := None\<rparr>))"

text \<open>\<open>conn.close()\<close>: what was not committed is rolled back.\<close>

definition close :: "unit prog" where
  "close w = (Inr (), (called Close w)\<lparr>conn := Closed, txn := None\<rparr>)"

text \<open>\<open>input(prompt)\<close>: writes the prompt, then reads one line; end of input raises.\<close>

definition input :: "string \<Rightarrow> string prog" where
  "input p w =
     (let w1 = (called (Input p) w)\<lparr>stdout := stdout w @ [p]\<rparr>
      in case stdin w of
           [] \<Rightarrow> (Inl EOFError, w1)
         | l # ls \<Rightarrow> (Inr l, w1\<lparr>stdin := ls\<rparr>))"

text \<open>\<open>print(s)\<close>\<close>

definition print :: "string \<Rightarrow> unit prog" where
  "print s w = (Inr (), (called (Print s) w)\<lparr>stdout := stdout w @ [s]\<rparr>)"


section \<open>The program\<close>

definition setup_database :: "env \<Rightarrow> unit prog" where
  "setup_database en =
     andThen (makedirs en) (\<lambda>_.
     andThen connect (\<lambda>_.
     andThen create_table (\<lambda>_.
     commit)))"

definition extract_article_content :: "env \<Rightarrow> string \<Rightarrow> string prog" where
  "extract_article_content en u w =
     (let w1 = called (Download u) w
      in case article_text en u of
           Inl msg \<Rightarrow> (Inl (ArticleException msg), w1)
         | Inr text \<Rightarrow> (Inr text, w1))"

definition overwrite_prompt :: string where
  "overwrite_prompt =
     ''An entry for this URL already exists. Do you want to overwrite it? (y/n): ''"

text \<open>Lines 55 to 64 of \<open>scrape\<close>, reached from both branches of \<open>if count > 0\<close>.\<close>

definition save_content :: "env \<Rightarrow> string \<Rightarrow> unit prog" where
  "save_content en u =
     andThen (extract_article_content en u) (\<lambda>c.
     andThen (insert_or_replace u c) (\<lambda>_.
     andThen commit (\<lambda>_.
     andThen close (\<lambda>_.
     print ''Content saved successfully.''))))"

definition scrape :: "env \<Rightarrow> string \<Rightarrow> unit prog" where
  "scrape en u =
     andThen (setup_database en) (\<lambda>_.
     andThen (select_count u) (\<lambda>count.
       if count > 0 then
         andThen (input overwrite_prompt) (\<lambda>line.
           let response = strip (lower line)
           in if response \<noteq> ''y'' then
                andThen (print ''Operation cancelled.'') (\<lambda>_. close)
              else save_content en u)
       else save_content en u))"

text \<open>
  The entry point hands the single positional argument to \<open>scrape\<close>; a process is run on
  what is on disk and on the lines waiting on standard input.
\<close>

definition main :: "env \<Rightarrow> string \<Rightarrow> store \<Rightarrow> string list \<Rightarrow> (exn + unit) \<times> world" where
  "main en u st lines = scrape en u (boot st lines)"

text \<open>Lines 36 to 40 of \<open>scrape\<close> alone: open the store and count the rows of a URL.\<close>

definition existence_check :: "env \<Rightarrow> string \<Rightarrow> nat prog" where
  "existence_check en u = andThen (setup_database en) (\<lambda>_. select_count u)"


section \<open>Observations on stores and runs\<close>

definition notes_of :: "store \<Rightarrow> note_row list" where
  "notes_of st = (case st of Notes rows \<Rightarrow> rows | _ \<Rightarrow> [])"

definition stored :: "string \<Rightarrow> store \<Rightarrow> bool" where
  "stored u st = (u \<in> set (map url (notes_of st)))"

definition one_note_per_url :: "store \<Rightarrow> bool" where
  "one_note_per_url st = distinct (map url (notes_of st))"

text \<open>The initialiser can only fail where the directory is missing and may not be created.\<close>

definition can_setup :: "env \<Rightarrow> store \<Rightarrow> bool" where
  "can_setup en st = (st \<noteq> NoDir \<or> can_mkdir en)"

text \<open>The next line on standard input, lower-cased and stripped, is \<open>y\<close>.\<close>

definition confirmed :: "string list \<Rightarrow> bool" where
  "confirmed lines = (case lines of [] \<Rightarrow> False | l # ls \<Rightarrow> strip (lower l) = ''y'')"

fun is_write :: "event \<Rightarrow> bool" where
  "is_write (Execute (InsertOrReplace u c)) = True"
| "is_write e = False"

fun is_download :: "event \<Rightarrow> bool" where
  "is_download (Download u) = True"
| "is_download e = False"

definition wrote :: "world \<Rightarrow> bool" where
  "wrote w = list_ex is_write (trace w)"

definition fetched :: "world \<Rightarrow> bool" where
  "fetched w = list_ex is_download (trace w)"

text \<open>The calls of \<open>setup_database\<close>, and the worlds \<open>scrape\<close> passes through.\<close>

definition setup_trace :: "event list" where
  "setup_trace = [MakeDirs, Connect, Execute CreateTable, Commit]"

definition after_query :: "string \<Rightarrow> store \<Rightarrow> string list \<Rightarrow> world" where
  "after_query u st lines =
     \<lparr>store = Notes (notes_of st), conn = Open, txn = None, stdin = lines, stdout = [],
      trace = setup_trace @ [Execute (SelectCount u)]\<rparr>"

definition after_prompt :: "string \<Rightarrow> store \<Rightarrow> string list \<Rightarrow> world" where
  "after_prompt u st rest =
     \<lparr>store = Notes (notes_of st), conn = Open, txn = None, stdin = rest,
      stdout = [overwrite_prompt],
      trace = setup_trace @ [Execute (SelectCount u), Input overwrite_prompt]\<rparr>"

text \<open>Concrete inputs: a URL, a store that holds it, and article libraries with a fixed answer.\<close>

definition url_a :: string where
  "url_a = ''http://example.com/a''"

definition url_b :: string where
  "url_b = ''http://example.com/b''"

definition old_store :: store where
  "old_store = Notes [\<lparr>url = url_a, content = ''Old text''\<rparr>]"

definition returning :: "string \<Rightarrow> env" where
  "returning t = \<lparr>can_mkdir = True, article_text = (\<lambda>u. Inr t)\<rparr>"

definition failing :: "string \<Rightarrow> env" where
  "failing msg = \<lparr>can_mkdir = True, article_text = (\<lambda>u. Inl msg)\<rparr>"


section \<open>How a run unfolds\<close>

lemma setup_database_boot:
  "setup_database en (boot st lines) =
     (if st = NoDir \<and> \<not> can_mkdir en
      then (Inl OSError, (boot st lines)\<lparr>trace := [MakeDirs]\<rparr>)
      else (Inr (), (boot (Notes (notes_of st)) lines)\<lparr>conn := Open, trace := setup_trace\<rparr>))"
  by (cases st)
     (simp_all add: setup_database_def andThen_def makedirs_def connect_def create_table_def
        commit_def current_rows_def called_def boot_def notes_of_def setup_trace_def)

lemma setup_database_store:
  "store (snd (setup_database en (boot st lines))) =
     (if can_setup en st then Notes (notes_of st) else st)"
  unfolding setup_database_boot by (simp add: can_setup_def boot_def)

lemma setup_database_result:
  "fst (setup_database en (boot st lines)) = (if can_setup en st then Inr () else Inl OSError)"
  by (simp add: setup_database_boot can_setup_def)

lemma save_content_open:
  assumes "conn w = Open" "txn w = None" "store w = Notes rows"
  shows "save_content en u w =
     (case article_text en u of
        Inl msg \<Rightarrow> (Inl (ArticleException msg), called (Download u) w)
      | Inr c \<Rightarrow>
          (Inr (), w\<lparr>store := Notes (replace_row u c rows), conn := Closed,
                     stdout := stdout w @ [''Content saved successfully.''],
                     trace := trace w @ [Download u, Execute (InsertOrReplace u c), Commit, Close,
                                         Print ''Content saved successfully.'']\<rparr>))"
  using assms
  by (simp add: save_content_def andThen_def extract_article_content_def insert_or_replace_def
        commit_def close_def print_def current_rows_def called_def split: sum.splits)

lemma count_pos_iff: "filter (\<lambda>n. url n = u) rows \<noteq> [] \<longleftrightarrow> u \<in> url ` set rows"
  by (auto simp: filter_empty_conv)

lemma scrape_query:
  "scrape en u (boot st lines) =
     (if \<not> can_setup en st then (Inl OSError, (boot st lines)\<lparr>trace := [MakeDirs]\<rparr>)
      else if stored u st then
        andThen (input overwrite_prompt) (\<lambda>line.
           let response = strip (lower line)
           in if response \<noteq> ''y'' then
                andThen (print ''Operation cancelled.'') (\<lambda>_. close)
              else save_content en u) (after_query u st lines)
      else save_content en u (after_query u st lines))"
proof (cases "can_setup en st")
  case False
  then show ?thesis
    by (simp add: scrape_def andThen_def [of "setup_database en"] setup_database_boot
          can_setup_def)
next
  case True
  have "select_count u ((boot (Notes (notes_of st)) lines)\<lparr>conn := Open, trace := setup_trace\<rparr>)
          = (Inr (length (filter (\<lambda>n. url n = u) (notes_of st))), after_query u st lines)"
    by (simp add: select_count_def current_rows_def called_def boot_def after_query_def)
  with True show ?thesis
    by (auto simp: scrape_def andThen_def [of "setup_database en"]
          andThen_def [of "select_count u"] setup_database_boot can_setup_def
          count_pos_iff stored_def)
qed

lemma scrape_setup_fails:
  "\<not> can_setup en st \<Longrightarrow>
   scrape en u (boot st lines) = (Inl OSError, (boot st lines)\<lparr>trace := [MakeDirs]\<rparr>)"
  by (simp add: scrape_query)

lemma scrape_fresh:
  "can_setup en st \<Longrightarrow> \<not> stored u st \<Longrightarrow>
   scrape en u (boot st lines) = save_content en u (after_query u st lines)"
  by (simp add: scrape_query)

lemma scrape_eof:
  "can_setup en st \<Longrightarrow> stored u st \<Longrightarrow>
   scrape en u (boot st []) = (Inl EOFError, after_prompt u st [])"
  by (simp add: scrape_query andThen_def input_def called_def after_query_def after_prompt_def)

lemma scrape_declined:
  "can_setup en st \<Longrightarrow> stored u st \<Longrightarrow> strip (lower l) \<noteq> ''y'' \<Longrightarrow>
   scrape en u (boot st (l # ls)) =
     (Inr (), (after_prompt u st ls)
        \<lparr>conn := Closed,
         stdout := [overwrite_prompt, ''Operation cancelled.''],
         trace := setup_trace @ [Execute (SelectCount u), Input overwrite_prompt,
                    Print ''Operation cancelled.'', Close]\<rparr>)"
  by (simp add: scrape_query andThen_def input_def print_def close_def called_def
        after_query_def after_prompt_def)

lemma scrape_confirmed:
  "can_setup en st \<Longrightarrow> stored u st \<Longrightarrow> strip (lower l) = ''y'' \<Longrightarrow>
   scrape en u (boot st (l # ls)) = save_content en u (after_prompt u st ls)"
  by (simp add: scrape_query andThen_def input_def called_def after_query_def after_prompt_def)

lemma notes_of_Notes: "notes_of (Notes rows) = rows"
  by (simp add: notes_of_def)

lemma stored_Notes: "stored u st \<Longrightarrow> Notes (notes_of st) = st"
  by (cases st) (simp_all add: stored_def notes_of_def)

lemma stored_can_setup: "stored u st \<Longrightarrow> can_setup en st"
  by (cases st) (simp_all add: stored_def notes_of_def can_setup_def)

lemma save_content_after_query:
  "save_content en u (after_query u st lines) =
     (case article_text en u of
        Inl msg \<Rightarrow> (Inl (ArticleException msg),
                     (after_query u st lines)\<lparr>trace := setup_trace @ [Execute (SelectCount u), Download u]\<rparr>)
      | Inr c \<Rightarrow>
          (Inr (), \<lparr>store = Notes (replace_row u c (notes_of st)), conn = Closed, txn = None,
                    stdin = lines, stdout = [''Content saved successfully.''],
                    trace = setup_trace @ [Execute (SelectCount u), Download u,
                              Execute (InsertOrReplace u c), Commit, Close,
                              Print ''Content saved successfully.'']\<rparr>))"
  by (simp add: save_content_open [where rows = "notes_of st"] after_query_def called_def
        split: sum.split)

lemma save_content_after_prompt:
  "save_content en u (after_prompt u st ls) =
     (case article_text en u of
        Inl msg \<Rightarrow> (Inl (ArticleException msg),
                     (after_prompt u st ls)\<lparr>trace := setup_trace @ [Execute (SelectCount u),
                        Input overwrite_prompt, Download u]\<rparr>)
      | Inr c \<Rightarrow>
          (Inr (), \<lparr>store = Notes (replace_row u c (notes_of st)), conn = Closed, txn = None,
                    stdin = ls, stdout = [overwrite_prompt, ''Content saved successfully.''],
                    trace = setup_trace @ [Execute (SelectCount u), Input overwrite_prompt,
                              Download u, Execute (InsertOrReplace u c), Commit, Close,
                              Print ''Content saved successfully.'']\<rparr>))"
  by (simp add: save_content_open [where rows = "notes_of st"] after_prompt_def called_def
        split: sum.split)

lemma main_cases:
  "main en u st lines =
     (if \<not> can_setup en st then (Inl OSError, (boot st lines)\<lparr>trace := [MakeDirs]\<rparr>)
      else if stored u st then
        (case lines of
           [] \<Rightarrow> (Inl EOFError, after_prompt u st [])
         | l # ls \<Rightarrow>
             if strip (lower l) \<noteq> ''y'' then
               (Inr (), (after_prompt u st ls)
                  \<lparr>conn := Closed,
                   stdout := [overwrite_prompt, ''Operation cancelled.''],
                   trace := setup_trace @ [Execute (SelectCount u), Input overwrite_prompt,
                              Print ''Operation cancelled.'', Close]\<rparr>)
             else save_content en u (after_prompt u st ls))
      else save_content en u (after_query u st lines))"
  unfolding main_def
  by (simp add: scrape_setup_fails scrape_fresh scrape_eof scrape_declined scrape_confirmed
        split: list.split)

lemma store_main:
  "store (snd (main en u st lines)) =
     (if \<not> can_setup en st then st
      else if stored u st \<and> \<not> confirmed lines then st
      else case article_text en u of
             Inl msg \<Rightarrow> Notes (notes_of st)
           | Inr c \<Rightarrow> Notes (replace_row u c (notes_of st)))"
  unfolding main_cases save_content_after_query save_content_after_prompt
  by (auto simp: confirmed_def
        boot_def after_prompt_def after_query_def stored_Notes split: list.split sum.split)

lemma result_main:
  "fst (main en u st lines) =
     (if \<not> can_setup en st then Inl OSError
      else if stored u st \<and> lines = [] then Inl EOFError
      else if stored u st \<and> \<not> confirmed lines then Inr ()
      else case article_text en u of
             Inl msg \<Rightarrow> Inl (ArticleException msg)
           | Inr c \<Rightarrow> Inr ())"
  unfolding main_cases save_content_after_query save_content_after_prompt
  by (auto simp: confirmed_def
        split: list.split sum.split)

lemma conn_main:
  "conn (snd (main en u st lines)) =
     (if \<not> can_setup en st then NotConnected
      else if stored u st \<and> lines = [] then Open
      else if stored u st \<and> \<not> confirmed lines then Closed
      else case article_text en u of Inl msg \<Rightarrow> Open | Inr c \<Rightarrow> Closed)"
  unfolding main_cases save_content_after_query save_content_after_prompt
  by (auto simp: confirmed_def
        boot_def after_prompt_def after_query_def split: list.split sum.split)

lemma fetched_main:
  "fetched (snd (main en u st lines)) \<longleftrightarrow>
     can_setup en st \<and> (stored u st \<longrightarrow> confirmed lines)"
  unfolding main_cases save_content_after_query save_content_after_prompt
  by (auto simp: confirmed_def
        boot_def after_prompt_def after_query_def fetched_def setup_trace_def
        split: list.split sum.split)

lemma wrote_main:
  "wrote (snd (main en u st lines)) \<longleftrightarrow>
     can_setup en st \<and> (stored u st \<longrightarrow> confirmed lines) \<and> (\<exists>c. article_text en u = Inr c)"
  unfolding main_cases save_content_after_query save_content_after_prompt
  by (auto simp: confirmed_def
        boot_def after_prompt_def after_query_def wrote_def setup_trace_def
        split: list.split sum.split)

lemma stdout_main:
  "stdout (snd (main en u st lines)) =
     (if \<not> can_setup en st then []
      else if stored u st then
        (if lines = [] then [overwrite_prompt]
         else if \<not> confirmed lines then [overwrite_prompt, ''Operation cancelled.'']
         else case article_text en u of
                Inl msg \<Rightarrow> [overwrite_prompt]
              | Inr c \<Rightarrow> [overwrite_prompt, ''Content saved successfully.''])
      else case article_text en u of
             Inl msg \<Rightarrow> []
           | Inr c \<Rightarrow> [''Content saved successfully.''])"
  unfolding main_cases save_content_after_query save_content_after_prompt
  by (auto simp: confirmed_def boot_def after_prompt_def after_query_def
        split: list.split sum.split)

lemma trace_main_declined:
  "stored u st \<Longrightarrow> strip (lower l) \<noteq> ''y'' \<Longrightarrow>
   trace (snd (main en u st (l # ls))) =
     setup_trace @ [Execute (SelectCount u), Input overwrite_prompt,
                    Print ''Operation cancelled.'', Close]"
  by (simp add: main_cases stored_can_setup)

lemma trace_main_returned:
  "fst (main en u st lines) = Inr () \<Longrightarrow>
   Connect \<in> set (trace (snd (main en u st lines)))
   \<and> Close \<in> set (trace (snd (main en u st lines)))"
  unfolding main_cases save_content_after_query save_content_after_prompt
  by (auto simp: setup_trace_def after_prompt_def split: if_splits list.splits sum.splits)

lemma existence_check_Notes:
  "existence_check en u (boot (Notes rows) lines) =
     (Inr (length (filter (\<lambda>n. url n = u) rows)), after_query u (Notes rows) lines)"
proof -
  have "setup_database en (boot (Notes rows) lines) =
          (Inr (), (boot (Notes rows) lines)\<lparr>conn := Open, trace := setup_trace\<rparr>)"
    by (simp add: setup_database_boot notes_of_def)
  then show ?thesis
    by (simp add: existence_check_def andThen_def select_count_def
          current_rows_def called_def boot_def after_query_def notes_of_def)
qed


section \<open>Rows and the upsert\<close>

lemma filter_replace_row:
  "filter (\<lambda>n. url n = u) (replace_row u c rows) = [\<lparr>url = u, content = c\<rparr>]"
  by (simp add: replace_row_def)

lemma filter_other_replace_row:
  "u' \<noteq> u \<Longrightarrow> filter (\<lambda>n. url n = u') (replace_row u c rows) = filter (\<lambda>n. url n = u') rows"
  by (induction rows) (auto simp: replace_row_def)

lemma replace_row_twice: "replace_row u c (replace_row u c rows) = replace_row u c rows"
  by (simp add: replace_row_def)

lemma distinct_replace_row:
  "distinct (map url rows) \<Longrightarrow> distinct (map url (replace_row u c rows))"
  by (auto simp: replace_row_def distinct_map_filter)

lemma distinct_count_one:
  "distinct (map url rows) \<Longrightarrow> u \<in> url ` set rows \<Longrightarrow>
   length (filter (\<lambda>n. url n = u) rows) = 1"
proof (induction rows)
  case Nil
  then show ?case by simp
next
  case (Cons a rows)
  show ?case
  proof (cases "url a = u")
    case True
    from Cons.prems have "url a \<notin> url ` set rows" by simp
    with True have "\<forall>x\<in>set rows. url x \<noteq> u" by blast
    then have "filter (\<lambda>n. url n = u) rows = []"
      by (simp add: filter_empty_conv)
    with True show ?thesis by simp
  next
    case False
    with Cons show ?thesis by auto
  qed
qed

lemma length_replace_row:
  assumes "distinct (map url rows)" "u \<in> url ` set rows"
  shows "length (replace_row u c rows) = length rows"
proof -
  have "length (filter (\<lambda>n. url n = u) rows) + length (filter (\<lambda>n. url n \<noteq> u) rows) = length rows"
    by (rule sum_length_filter_compl)
  with distinct_count_one [OF assms] show ?thesis
    by (simp add: replace_row_def)
qed


section \<open>Responses at the prompt\<close>

lemma y_upper: "strip (lower ''Y'') = ''y''" by code_simp

lemma not_y_empty: "strip (lower '''') \<noteq> ''y''" by code_simp

lemma not_y_n: "strip (lower ''n'') \<noteq> ''y''" by code_simp

lemma not_y_yes: "strip (lower ''yes'') \<noteq> ''y''" by code_simp


section \<open>Properties of the program\<close>

text \<open>
  C1. Where the URL already has a row and a line is read at the prompt, the run goes on to
  the article library exactly when the line, lower-cased and stripped, is \<open>y\<close> (so
  \<open>Y\<close> goes on). When it goes on and the library returns a text, the run returns
  normally, writes, and the row of the URL holds that text. For any other line the store
  is what it was, no \<open>INSERT OR REPLACE\<close> is executed, and the output is the prompt
  followed by \<open>Operation cancelled.\<close>
\<close>

theorem overwrite_iff_confirmed:
  assumes "stored u st"
  shows "(fetched (snd (main en u st (line # rest))) \<longleftrightarrow> strip (lower line) = ''y'')
       \<and> (strip (lower line) = ''y'' \<and> article_text en u = Inr c \<longrightarrow>
            fst (main en u st (line # rest)) = Inr ()
            \<and> wrote (snd (main en u st (line # rest)))
            \<and> filter (\<lambda>n. url n = u) (notes_of (store (snd (main en u st (line # rest)))))
                = [\<lparr>url = u, content = c\<rparr>])
       \<and> (strip (lower line) \<noteq> ''y'' \<longrightarrow>
            store (snd (main en u st (line # rest))) = st
            \<and> \<not> wrote (snd (main en u st (line # rest)))
            \<and> stdout (snd (main en u st (line # rest)))
                = [overwrite_prompt, ''Operation cancelled.''])
       \<and> fetched (snd (main en u st (''Y'' # rest)))"
proof -
  note ok = stored_can_setup [OF assms, of en]
  have gate: "fetched (snd (main en u st (line # rest))) \<longleftrightarrow> strip (lower line) = ''y''"
    using assms ok by (simp add: fetched_main confirmed_def)
  have yes: "strip (lower line) = ''y'' \<and> article_text en u = Inr c \<longrightarrow>
            fst (main en u st (line # rest)) = Inr ()
            \<and> wrote (snd (main en u st (line # rest)))
            \<and> filter (\<lambda>n. url n = u) (notes_of (store (snd (main en u st (line # rest)))))
                = [\<lparr>url = u, content = c\<rparr>]"
    using assms ok
    by (simp add: result_main wrote_main store_main confirmed_def notes_of_def filter_replace_row)
  have no: "strip (lower line) \<noteq> ''y'' \<longrightarrow>
            store (snd (main en u st (line # rest))) = st
            \<and> \<not> wrote (snd (main en u st (line # rest)))
            \<and> stdout (snd (main en u st (line # rest)))
                = [overwrite_prompt, ''Operation cancelled.'']"
    using assms ok by (simp add: store_main wrote_main stdout_main confirmed_def)
  have upper: "fetched (snd (main en u st (''Y'' # rest)))"
    using assms ok by (simp add: fetched_main confirmed_def y_upper)
  from gate yes no upper show ?thesis by blast
qed

theorem overwrite_iff_confirmed_witness:
  "stored url_a old_store
   \<and> strip (lower ''Y'') = ''y''
   \<and> fetched (snd (main (returning ''New text'') url_a old_store [''Y'']))
   \<and> fst (main (returning ''New text'') url_a old_store [''Y'']) = Inr ()
   \<and> filter (\<lambda>n. url n = url_a)
        (notes_of (store (snd (main (returning ''New text'') url_a old_store [''Y'']))))
        = [\<lparr>url = url_a, content = ''New text''\<rparr>]"
proof -
  have h: "stored url_a old_store" by code_simp
  have x: "article_text (returning ''New text'') url_a = Inr ''New text''"
    by (simp add: returning_def)
  from overwrite_iff_confirmed [OF h, of "returning ''New text''" "''Y''" "[]" "''New text''"]
    h x y_upper
  show ?thesis by blast
qed

text \<open>
  C2. Whether or not the URL has a row: when the article library fails for the URL, no
  \<open>INSERT OR REPLACE\<close> is executed on any path, the rows of the store are those from
  before the call, a store that was already initialised is left exactly as it was, and
  a run that reached the library ends with the library's failure.
\<close>

theorem extraction_failure_leaves_store:
  assumes "article_text en u = Inl msg"
  shows "notes_of (store (snd (main en u st lines))) = notes_of st
       \<and> \<not> wrote (snd (main en u st lines))
       \<and> (fetched (snd (main en u st lines)) \<longrightarrow>
            fst (main en u st lines) = Inl (ArticleException msg))
       \<and> (st = Notes rows \<longrightarrow> store (snd (main en u st lines)) = st)"
  using assms
  by (auto simp: store_main wrote_main fetched_main result_main notes_of_def can_setup_def
        confirmed_def split: list.splits)

theorem extraction_failure_leaves_store_witness:
  "article_text (failing ''unreachable'') url_a = Inl ''unreachable''
   \<and> fetched (snd (main (failing ''unreachable'') url_a old_store [''y'']))
   \<and> fst (main (failing ''unreachable'') url_a old_store [''y''])
        = Inl (ArticleException ''unreachable'')
   \<and> \<not> wrote (snd (main (failing ''unreachable'') url_a old_store [''y'']))
   \<and> store (snd (main (failing ''unreachable'') url_a old_store [''y''])) = old_store"
proof -
  have x: "article_text (failing ''unreachable'') url_a = Inl ''unreachable''"
    by (simp add: failing_def)
  have f: "fetched (snd (main (failing ''unreachable'') url_a old_store [''y'']))"
    by code_simp
  have o: "old_store = Notes [\<lparr>url = url_a, content = ''Old text''\<rparr>]"
    by (simp add: old_store_def)
  from extraction_failure_leaves_store [OF x, of old_store "[''y'']"
         "[\<lparr>url = url_a, content = ''Old text''\<rparr>]"] x f o
  show ?thesis by blast
qed

text \<open>
  C3. For a URL with no row in the store, a scrape that returns normally leaves exactly
  one row for that URL, holding the URL and the text the article library returned; the
  only output is \<open>Content saved successfully.\<close>, and the existence query of a later
  run counts one row for the URL.
\<close>

theorem scrape_fresh_url_stores_note:
  assumes "\<not> stored u st"
    and "fst (main en u st lines) = Inr ()"
    and "article_text en u = Inr c"
  shows "filter (\<lambda>n. url n = u) (notes_of (store (snd (main en u st lines))))
           = [\<lparr>url = u, content = c\<rparr>]
       \<and> stdout (snd (main en u st lines)) = [''Content saved successfully.'']
       \<and> fst (existence_check en' u (boot (store (snd (main en u st lines))) lines')) = Inr 1"
proof -
  from assms(2) have ok: "can_setup en st"
    by (auto simp: result_main split: if_splits)
  from ok assms(1,3) have st: "store (snd (main en u st lines)) = Notes (replace_row u c (notes_of st))"
    by (simp add: store_main)
  from ok assms(1,3) have out: "stdout (snd (main en u st lines)) = [''Content saved successfully.'']"
    by (simp add: stdout_main)
  show ?thesis
    by (simp add: st out notes_of_def existence_check_Notes filter_replace_row)
qed

theorem scrape_fresh_url_stores_note_witness:
  "\<not> stored url_a NoDir
   \<and> fst (main (returning ''Hello world'') url_a NoDir []) = Inr ()
   \<and> article_text (returning ''Hello world'') url_a = Inr ''Hello world''
   \<and> filter (\<lambda>n. url n = url_a)
        (notes_of (store (snd (main (returning ''Hello world'') url_a NoDir []))))
        = [\<lparr>url = url_a, content = ''Hello world''\<rparr>]
   \<and> store (snd (main (returning ''Hello world'') url_a NoDir []))
        = Notes [\<lparr>url = url_a, content = ''Hello world''\<rparr>]
   \<and> stdout (snd (main (returning ''Hello world'') url_a NoDir []))
        = [''Content saved successfully.'']
   \<and> fst (existence_check (returning ''Hello world'') url_a
        (boot (store (snd (main (returning ''Hello world'') url_a NoDir []))) [])) = Inr 1"
proof -
  have h1: "\<not> stored url_a NoDir" by code_simp
  have h2: "fst (main (returning ''Hello world'') url_a NoDir []) = Inr ()" by code_simp
  have h3: "article_text (returning ''Hello world'') url_a = Inr ''Hello world''"
    by (simp add: returning_def)
  have h4: "store (snd (main (returning ''Hello world'') url_a NoDir []))
              = Notes [\<lparr>url = url_a, content = ''Hello world''\<rparr>]" by code_simp
  from scrape_fresh_url_stores_note [OF h1 h2 h3, of "returning ''Hello world''" "[]"] h1 h2 h3 h4
  show ?thesis by blast
qed

text \<open>
  C4, as stated, fails: the claim lists \<open>Y\<close> followed by a space among the responses
  that abort. The response is lower-cased and stripped before it is compared, so this
  response, which is not the one-character string \<open>y\<close>, overwrites the stored row.
\<close>

theorem trailing_space_Y_counterexample:
  "stored url_a old_store
   \<and> ''Y '' \<noteq> ''y''
   \<and> wrote (snd (main (returning ''New text'') url_a old_store [''Y '']))
   \<and> store (snd (main (returning ''New text'') url_a old_store [''Y '']))
        = Notes [\<lparr>url = url_a, content = ''New text''\<rparr>]
   \<and> store (snd (main (returning ''New text'') url_a old_store [''Y ''])) \<noteq> old_store
   \<and> stdout (snd (main (returning ''New text'') url_a old_store [''Y '']))
        = [overwrite_prompt, ''Content saved successfully.'']"
  by code_simp

text \<open>
  C4, amended. Where the URL already has a row, every response whose lower-cased and
  stripped form is not \<open>y\<close> makes the run return normally with the connection closed,
  the output being the prompt followed by \<open>Operation cancelled.\<close>, the store as it
  was and no \<open>INSERT OR REPLACE\<close> executed; the empty response, \<open>n\<close> and \<open>yes\<close>
  are such responses.
\<close>

theorem decline_aborts_without_write:
  assumes "stored u st" and "strip (lower line) \<noteq> ''y''"
  shows "fst (main en u st (line # rest)) = Inr ()
       \<and> conn (snd (main en u st (line # rest))) = Closed
       \<and> stdout (snd (main en u st (line # rest))) = [overwrite_prompt, ''Operation cancelled.'']
       \<and> store (snd (main en u st (line # rest))) = st
       \<and> \<not> wrote (snd (main en u st (line # rest)))
       \<and> strip (lower []) \<noteq> ''y'' \<and> strip (lower ''n'') \<noteq> ''y''
       \<and> strip (lower ''yes'') \<noteq> ''y''"
  using assms stored_can_setup [OF assms(1), of en]
  by (simp add: result_main conn_main stdout_main store_main wrote_main confirmed_def
        not_y_empty not_y_n not_y_yes)

theorem decline_aborts_without_write_witness:
  "stored url_a old_store
   \<and> strip (lower ''yes'') \<noteq> ''y''
   \<and> fst (main (returning ''New text'') url_a old_store [''yes'']) = Inr ()
   \<and> conn (snd (main (returning ''New text'') url_a old_store [''yes''])) = Closed
   \<and> stdout (snd (main (returning ''New text'') url_a old_store [''yes'']))
        = [overwrite_prompt, ''Operation cancelled.'']
   \<and> store (snd (main (returning ''New text'') url_a old_store [''yes''])) = old_store
   \<and> \<not> wrote (snd (main (returning ''New text'') url_a old_store [''yes'']))"
proof -
  have h: "stored url_a old_store" by code_simp
  from decline_aborts_without_write [OF h not_y_yes, of "returning ''New text''" "[]"] h not_y_yes
  show ?thesis by blast
qed

text \<open>
  C5. If no two rows of the store share a URL, the same holds after the storage
  initialiser and after a whole run of scrape, whatever its outcome. A write for a URL
  that already has a row leaves exactly one row for it, holding the new text, and the
  same number of rows as before: no second record, nothing of the old content.
\<close>

theorem one_note_per_url_invariant:
  assumes "one_note_per_url st"
  shows "one_note_per_url (store (snd (setup_database en (boot st lines))))
       \<and> one_note_per_url (store (snd (main en u st lines)))
       \<and> (stored u st \<and> wrote (snd (main en u st lines)) \<and> article_text en u = Inr c \<longrightarrow>
            filter (\<lambda>n. url n = u) (notes_of (store (snd (main en u st lines))))
              = [\<lparr>url = u, content = c\<rparr>]
            \<and> length (notes_of (store (snd (main en u st lines)))) = length (notes_of st))"
proof -
  have a: "one_note_per_url (store (snd (setup_database en (boot st lines))))"
    using assms
    by (simp add: setup_database_store one_note_per_url_def notes_of_Notes)
  have b: "one_note_per_url (store (snd (main en u st lines)))"
    using assms
    by (simp add: store_main one_note_per_url_def notes_of_Notes distinct_replace_row
          split: sum.split)
  have c: "stored u st \<and> wrote (snd (main en u st lines)) \<and> article_text en u = Inr c \<longrightarrow>
            filter (\<lambda>n. url n = u) (notes_of (store (snd (main en u st lines))))
              = [\<lparr>url = u, content = c\<rparr>]
            \<and> length (notes_of (store (snd (main en u st lines)))) = length (notes_of st)"
  proof (intro impI, elim conjE)
    assume s: "stored u st" and w: "wrote (snd (main en u st lines))"
      and x: "article_text en u = Inr c"
    from w s have "can_setup en st" "confirmed lines"
      by (simp_all add: wrote_main)
    with s x have st': "store (snd (main en u st lines)) = Notes (replace_row u c (notes_of st))"
      by (simp add: store_main)
    from assms s have "length (replace_row u c (notes_of st)) = length (notes_of st)"
      by (simp add: length_replace_row one_note_per_url_def stored_def)
    then show "filter (\<lambda>n. url n = u) (notes_of (store (snd (main en u st lines))))
              = [\<lparr>url = u, content = c\<rparr>]
            \<and> length (notes_of (store (snd (main en u st lines)))) = length (notes_of st)"
      by (simp add: st' notes_of_Notes filter_replace_row)
  qed
  from a b c show ?thesis by blast
qed

theorem one_note_per_url_invariant_witness:
  "one_note_per_url old_store
   \<and> stored url_a old_store
   \<and> wrote (snd (main (returning ''New text'') url_a old_store [''y'']))
   \<and> one_note_per_url (store (snd (main (returning ''New text'') url_a old_store [''y''])))
   \<and> filter (\<lambda>n. url n = url_a)
        (notes_of (store (snd (main (returning ''New text'') url_a old_store [''y'']))))
        = [\<lparr>url = url_a, content = ''New text''\<rparr>]
   \<and> length (notes_of (store (snd (main (returning ''New text'') url_a old_store [''y'']))))
        = length (notes_of old_store)"
proof -
  have i: "one_note_per_url old_store" by code_simp
  have h: "stored url_a old_store" by code_simp
  have w: "wrote (snd (main (returning ''New text'') url_a old_store [''y'']))" by code_simp
  have x: "article_text (returning ''New text'') url_a = Inr ''New text''"
    by (simp add: returning_def)
  from one_note_per_url_invariant [OF i, of "returning ''New text''" "[''y'']" url_a "''New text''"]
    i h w x
  show ?thesis by blast
qed

text \<open>
  C6. With an article library that returns the same text both times, and every prompt
  answered with a confirmation, a second scrape of the same URL on the store the first
  one left gives the same store again; the row of the URL holds the library's text.
\<close>

theorem scrape_twice_same_as_once:
  assumes "can_setup en st"
    and "article_text en u = Inr c"
    and "stored u st \<longrightarrow> confirmed l1"
    and "confirmed l2"
  shows "store (snd (main en u (store (snd (main en u st l1))) l2)) = store (snd (main en u st l1))
       \<and> filter (\<lambda>n. url n = u) (notes_of (store (snd (main en u st l1))))
           = [\<lparr>url = u, content = c\<rparr>]"
proof -
  from assms(1-3) have one: "store (snd (main en u st l1)) = Notes (replace_row u c (notes_of st))"
    by (auto simp: store_main)
  have ok2: "can_setup en (Notes (replace_row u c (notes_of st)))"
    by (simp add: can_setup_def)
  have two: "store (snd (main en u (Notes (replace_row u c (notes_of st))) l2))
               = Notes (replace_row u c (notes_of st))"
    using assms(2,4) ok2
    by (simp add: store_main notes_of_Notes replace_row_twice split: sum.split)
  show ?thesis
    by (simp add: one two notes_of_Notes filter_replace_row)
qed

theorem scrape_twice_same_as_once_witness:
  "can_setup (returning ''New text'') old_store
   \<and> article_text (returning ''New text'') url_a = Inr ''New text''
   \<and> stored url_a old_store
   \<and> confirmed [''y'']
   \<and> confirmed ['' Y'']
   \<and> store (snd (main (returning ''New text'') url_a
        (store (snd (main (returning ''New text'') url_a old_store [''y'']))) ['' Y'']))
      = store (snd (main (returning ''New text'') url_a old_store [''y'']))
   \<and> filter (\<lambda>n. url n = url_a)
        (notes_of (store (snd (main (returning ''New text'') url_a old_store [''y'']))))
        = [\<lparr>url = url_a, content = ''New text''\<rparr>]"
proof -
  have a: "can_setup (returning ''New text'') old_store" by code_simp
  have x: "article_text (returning ''New text'') url_a = Inr ''New text''"
    by (simp add: returning_def)
  have s: "stored url_a old_store" by code_simp
  have c1: "confirmed [''y'']" by code_simp
  have c2: "confirmed ['' Y'']" by code_simp
  from c1 have c1': "stored url_a old_store \<longrightarrow> confirmed [''y'']" by simp
  from scrape_twice_same_as_once [OF a x c1' c2] a x s c1 c2
  show ?thesis by blast
qed

text \<open>
  C7. The storage initialiser creates what is missing and nothing else: after it the
  store is the table with the rows it had before (none where there was no table), or the
  store as it was when the directory cannot be created. Run again on the store it left,
  it succeeds and leaves the store as it is; run on a store that already has the table,
  it succeeds and leaves the table and its rows unchanged.
\<close>

theorem setup_database_idempotent:
  "store (snd (setup_database en (boot st l1)))
     = (if can_setup en st then Notes (notes_of st) else st)
   \<and> notes_of (store (snd (setup_database en (boot st l1)))) = notes_of st
   \<and> (fst (setup_database en (boot st l1)) = Inr () \<longrightarrow>
        fst (setup_database en (boot (store (snd (setup_database en (boot st l1)))) l2)) = Inr ()
        \<and> store (snd (setup_database en (boot (store (snd (setup_database en (boot st l1)))) l2)))
            = store (snd (setup_database en (boot st l1))))
   \<and> fst (setup_database en (boot (Notes rows) l1)) = Inr ()
   \<and> store (snd (setup_database en (boot (Notes rows) l1))) = Notes rows"
  by (simp add: setup_database_store setup_database_result notes_of_Notes can_setup_def)

theorem setup_database_idempotent_witness:
  "fst (setup_database (returning []) (boot NoDir [])) = Inr ()
   \<and> store (snd (setup_database (returning []) (boot NoDir []))) = Notes []
   \<and> fst (setup_database (returning [])
            (boot (store (snd (setup_database (returning []) (boot NoDir [])))) [])) = Inr ()
   \<and> store (snd (setup_database (returning [])
            (boot (store (snd (setup_database (returning []) (boot NoDir [])))) [])))
        = store (snd (setup_database (returning []) (boot NoDir [])))
   \<and> store (snd (setup_database (returning [])
            (boot (Notes [\<lparr>url = url_a, content = ''Old text''\<rparr>]) [])))
        = Notes [\<lparr>url = url_a, content = ''Old text''\<rparr>]"
proof -
  have r: "fst (setup_database (returning []) (boot NoDir [])) = Inr ()" by code_simp
  have s: "store (snd (setup_database (returning []) (boot NoDir []))) = Notes []" by code_simp
  from setup_database_idempotent [of "returning []" NoDir "[]" "[]"
         "[\<lparr>url = url_a, content = ''Old text''\<rparr>]"] r s
  show ?thesis by blast
qed

text \<open>
  C8, as stated, fails on the failure path: when the article library raises, the
  exception leaves \<open>scrape\<close> after \<open>sqlite3.connect\<close> and before any
  \<open>conn.close()\<close>, so the run ends with the connection open.
\<close>

theorem extraction_failure_leaves_connection_open_counterexample:
  "fst (main (failing ''unreachable'') url_a NoDir []) = Inl (ArticleException ''unreachable'')
   \<and> Connect \<in> set (trace (snd (main (failing ''unreachable'') url_a NoDir [])))
   \<and> Close \<notin> set (trace (snd (main (failing ''unreachable'') url_a NoDir [])))
   \<and> conn (snd (main (failing ''unreachable'') url_a NoDir [])) = Open
   \<and> conn (snd (main (failing ''unreachable'') url_a NoDir [])) \<noteq> Closed"
  by code_simp

text \<open>
  C8, amended. On every path on which scrape returns normally, that is after a save and
  after a cancellation, the connection opened at the start has been closed by
  \<open>conn.close()\<close> when the invocation ends.
\<close>

theorem connection_closed_on_return:
  assumes "fst (main en u st lines) = Inr ()"
  shows "conn (snd (main en u st lines)) = Closed
       \<and> Connect \<in> set (trace (snd (main en u st lines)))
       \<and> Close \<in> set (trace (snd (main en u st lines)))"
proof -
  from assms have "conn (snd (main en u st lines)) = Closed"
    by (auto simp: result_main conn_main split: if_splits sum.splits)
  with trace_main_returned [OF assms] show ?thesis by simp
qed

theorem connection_closed_on_return_witness:
  "fst (main (returning ''New text'') url_a old_store [''n'']) = Inr ()
   \<and> conn (snd (main (returning ''New text'') url_a old_store [''n''])) = Closed
   \<and> Connect \<in> set (trace (snd (main (returning ''New text'') url_a old_store [''n''])))
   \<and> Close \<in> set (trace (snd (main (returning ''New text'') url_a old_store [''n''])))"
proof -
  have r: "fst (main (returning ''New text'') url_a old_store [''n'']) = Inr ()" by code_simp
  from connection_closed_on_return [OF r] r show ?thesis by simp
qed

text \<open>
  C9. A run of scrape for a URL leaves the rows of every other URL as they were, url and
  content, whatever the outcome of the run.
\<close>

theorem scrape_frame:
  assumes "u' \<noteq> u"
  shows "filter (\<lambda>n. url n = u') (notes_of (store (snd (main en u st lines))))
           = filter (\<lambda>n. url n = u') (notes_of st)"
  using assms
  by (simp add: store_main notes_of_Notes filter_other_replace_row split: sum.split)

theorem scrape_frame_witness:
  "url_b \<noteq> url_a
   \<and> filter (\<lambda>n. url n = url_b)
       (notes_of (store (snd (main (returning ''New text'') url_a
          (Notes [\<lparr>url = url_b, content = ''Other''\<rparr>, \<lparr>url = url_a, content = ''Old text''\<rparr>])
          [''y'']))))
       = [\<lparr>url = url_b, content = ''Other''\<rparr>]
   \<and> wrote (snd (main (returning ''New text'') url_a
          (Notes [\<lparr>url = url_b, content = ''Other''\<rparr>, \<lparr>url = url_a, content = ''Old text''\<rparr>])
          [''y'']))"
proof -
  have d: "url_b \<noteq> url_a" by code_simp
  have w: "wrote (snd (main (returning ''New text'') url_a
          (Notes [\<lparr>url = url_b, content = ''Other''\<rparr>, \<lparr>url = url_a, content = ''Old text''\<rparr>])
          [''y'']))" by code_simp
  have f: "filter (\<lambda>n. url n = url_b)
        (notes_of (Notes [\<lparr>url = url_b, content = ''Other''\<rparr>,
                          \<lparr>url = url_a, content = ''Old text''\<rparr>]))
        = [\<lparr>url = url_b, content = ''Other''\<rparr>]"
    using d by (simp add: notes_of_Notes)
  from scrape_frame [OF d, of "returning ''New text''"
         "Notes [\<lparr>url = url_b, content = ''Other''\<rparr>, \<lparr>url = url_a, content = ''Old text''\<rparr>]"
         "[''y'']"] d w f
  show ?thesis by simp
qed

text \<open>
  C10. Where the URL already has a row and the response does not confirm, the article
  library is never called. The calls of the run are those of the storage initialiser,
  which leaves the existing store as it is, followed by exactly the existence query, the
  prompt, the cancellation message and the close; the store ends as it was and the
  connection closed.
\<close>

theorem declined_never_fetches:
  assumes "stored u st" and "strip (lower line) \<noteq> ''y''"
  shows "\<not> fetched (snd (main en u st (line # rest)))
       \<and> trace (snd (main en u st (line # rest)))
           = setup_trace @ [Execute (SelectCount u), Input overwrite_prompt,
                            Print ''Operation cancelled.'', Close]
       \<and> store (snd (setup_database en (boot st (line # rest)))) = st
       \<and> store (snd (main en u st (line # rest))) = st
       \<and> conn (snd (main en u st (line # rest))) = Closed"
  using assms stored_can_setup [OF assms(1), of en]
  by (simp add: fetched_main trace_main_declined setup_database_store store_main conn_main
        confirmed_def stored_Notes)

theorem declined_never_fetches_witness:
  "stored url_a old_store
   \<and> strip (lower ''n'') \<noteq> ''y''
   \<and> \<not> fetched (snd (main (returning ''New text'') url_a old_store [''n'']))
   \<and> trace (snd (main (returning ''New text'') url_a old_store [''n'']))
       = [MakeDirs, Connect, Execute CreateTable, Commit, Execute (SelectCount url_a),
          Input overwrite_prompt, Print ''Operation cancelled.'', Close]
   \<and> store (snd (main (returning ''New text'') url_a old_store [''n''])) = old_store"
proof -
  have h: "stored url_a old_store" by code_simp
  from declined_never_fetches [OF h not_y_n, of "returning ''New text''" "[]"] h not_y_n
  show ?thesis by (simp add: setup_trace_def)
qed

end
